theory Spec2Isabelle
  imports Main
begin

section \<open>The recording hook of react-media-recorder\<close>

text \<open>
  A shallow embedding of \<^verbatim>\<open>useReactMediaRecorder\<close> (src/index.ts). The hook keeps
  its state in React state cells and refs; the model gathers them in one record, the
  session, together with the part of the browser the hook talks to: the media streams
  (objects the hook only holds handles of), the store of object URLs, and logs of the
  calls that leave the hook (capability requests, the consumer's callbacks).
  Every callback of the hook is a function on sessions. Events of the recorder are
  inputs: the handler the hook installs is applied when the event fires.
\<close>

subsection \<open>Tracks and streams\<close>

datatype TrackKind = AudioKind | VideoKind

datatype MediaStreamTrackState = Live | Ended

record MediaStreamTrack =
  kind :: TrackKind
  enabled :: bool
  readyState :: MediaStreamTrackState

text \<open>\<^verbatim>\<open>track.stop()\<close> ends the track.\<close>

definition track_stop :: "MediaStreamTrack \<Rightarrow> MediaStreamTrack" where
  "track_stop t = t\<lparr>readyState := Ended\<rparr>"

text \<open>A stream is the list of its tracks; \<^verbatim>\<open>getTracks()\<close> is the list itself.\<close>

definition getAudioTracks :: "MediaStreamTrack list \<Rightarrow> MediaStreamTrack list" where
  "getAudioTracks ts = filter (\<lambda>t. kind t = AudioKind) ts"

text \<open>A stream is active while one of its tracks has not ended.\<close>

definition stream_active :: "MediaStreamTrack list \<Rightarrow> bool" where
  "stream_active ts = list_ex (\<lambda>t. readyState t \<noteq> Ended) ts"

subsection \<open>The recorder object\<close>

datatype RecordingState = Inactive | Recording | Paused

text \<open>
  Faults that leave a callback: the \<^verbatim>\<open>TypeError\<close> of reading a property of
  \<^verbatim>\<open>undefined\<close>, the exceptions of the recorder's methods, and the error the
  mount effect throws when screen capture is not available.
\<close>

datatype fault =
    TypeError
  | NotSupportedError
  | InvalidStateError
  | SecurityError
  | ScreenCaptureUnsupported

record MediaRecorder =
  stream :: nat
  state :: RecordingState

definition MediaRecorder_new :: "nat \<Rightarrow> MediaRecorder" where
  "MediaRecorder_new h = \<lparr>stream = h, state = Inactive\<rparr>"

subsection \<open>Chunks, blobs and object URLs\<close>

text \<open>
  A chunk is the \<^verbatim>\<open>data\<close> of a \<^verbatim>\<open>BlobEvent\<close>: its bytes and the type it reports.
  A blob built by the hook is the list of the chunks it was assembled from and the
  members of the property bag it was constructed with.
\<close>

record Chunk =
  chunk_bytes :: "nat list"
  chunk_type :: string

record BlobPropertyBag =
  bag_type :: "string option"
  bag_endings :: "string option"

record Blob =
  blobParts :: "Chunk list"
  blob_type :: string
  blob_endings :: "string option"

text \<open>
  \<^verbatim>\<open>Object.assign(target, source)\<close> on property bags: every member the source has
  replaces the target's.
\<close>

definition Object_assign :: "BlobPropertyBag \<Rightarrow> BlobPropertyBag \<Rightarrow> BlobPropertyBag" where
  "Object_assign target source =
     \<lparr>bag_type = (case bag_type source of Some t \<Rightarrow> Some t | None \<Rightarrow> bag_type target),
      bag_endings = (case bag_endings source of Some e \<Rightarrow> Some e | None \<Rightarrow> bag_endings target)\<rparr>"

definition new_Blob :: "Chunk list \<Rightarrow> BlobPropertyBag \<Rightarrow> Blob" where
  "new_Blob parts bag =
     \<lparr>blobParts = parts,
      blob_type = (case bag_type bag of Some t \<Rightarrow> t | None \<Rightarrow> ''''),
      blob_endings = bag_endings bag\<rparr>"

text \<open>An object URL is named by the position of its blob in the platform's URL store.\<close>

datatype url = BlobUrl nat

subsection \<open>Configuration and capabilities\<close>

text \<open>
  \<^verbatim>\<open>audio\<close> and \<^verbatim>\<open>video\<close> are a boolean or a \<^verbatim>\<open>MediaTrackConstraints\<close> object
  (modelled by its keys). An object is truthy, whatever it holds.
\<close>

datatype MediaSpec = Flag bool | Constraints "string list"

fun truthy :: "MediaSpec \<Rightarrow> bool" where
  "truthy (Flag b) = b"
| "truthy (Constraints ks) = True"

record MediaStreamConstraints =
  audio_constraint :: "MediaSpec option"
  video_constraint :: "MediaSpec option"

text \<open>
  The hook's props. \<^verbatim>\<open>onStop\<close> and \<^verbatim>\<open>onStart\<close> are the consumer's callbacks:
  the session logs their calls. \<^verbatim>\<open>customMediaStream\<close> is the handle of a stream of
  the caller's.
\<close>

record ReactMediaRecorderHookProps =
  audio :: MediaSpec
  video :: MediaSpec
  screen :: bool
  blobPropertyBag :: "BlobPropertyBag option"
  customMediaStream :: "nat option"
  stopStreamsOnStop :: bool

definition default_props :: ReactMediaRecorderHookProps where
  "default_props =
     \<lparr>audio = Flag True, video = Flag False, screen = False, blobPropertyBag = None,
      customMediaStream = None, stopStreamsOnStop = True\<rparr>"

text \<open>
  What the browser answers when the hook asks: whether \<^verbatim>\<open>window.MediaRecorder\<close> and
  \<^verbatim>\<open>getDisplayMedia\<close> exist, for each request either the tracks of the stream
  it yields or the name of the error it rejects with, and whether \<^verbatim>\<open>start()\<close>
  refuses to record a stream with the given tracks.
\<close>

record Platform =
  hasMediaRecorder :: bool
  hasGetDisplayMedia :: bool
  getUserMedia :: "MediaStreamConstraints \<Rightarrow> string + MediaStreamTrack list"
  getDisplayMedia :: "MediaStreamConstraints \<Rightarrow> string + MediaStreamTrack list"
  refusesStart :: "MediaStreamTrack list \<Rightarrow> fault option"

datatype request = UserMedia MediaStreamConstraints | DisplayMedia MediaStreamConstraints

text \<open>
  The methods of the platform's recorder. \<^verbatim>\<open>start()\<close> throws on a recorder that is
  not inactive and when the platform refuses the stream; \<^verbatim>\<open>pause()\<close> and
  \<^verbatim>\<open>resume()\<close> throw on an inactive recorder; \<^verbatim>\<open>stop()\<close> inactivates the
  recorder and does nothing to an inactive one. The second argument of
  \<open>MediaRecorder_start\<close> is the track list of the recorder's stream.
\<close>

definition MediaRecorder_start ::
  "Platform \<Rightarrow> MediaStreamTrack list \<Rightarrow> MediaRecorder \<Rightarrow> fault + MediaRecorder" where
  "MediaRecorder_start pf ts r =
     (if state r \<noteq> Inactive then Inl InvalidStateError
      else case refusesStart pf ts of
             Some f \<Rightarrow> Inl f
           | None \<Rightarrow> Inr (r\<lparr>state := Recording\<rparr>))"

definition MediaRecorder_pause :: "MediaRecorder \<Rightarrow> fault + MediaRecorder" where
  "MediaRecorder_pause r =
     (if state r = Inactive then Inl InvalidStateError else Inr (r\<lparr>state := Paused\<rparr>))"

definition MediaRecorder_resume :: "MediaRecorder \<Rightarrow> fault + MediaRecorder" where
  "MediaRecorder_resume r =
     (if state r = Inactive then Inl InvalidStateError else Inr (r\<lparr>state := Recording\<rparr>))"

definition MediaRecorder_stop :: "MediaRecorder \<Rightarrow> MediaRecorder" where
  "MediaRecorder_stop r = r\<lparr>state := Inactive\<rparr>"

subsection \<open>The session\<close>

datatype StatusMessages =
    media_aborted
  | permission_denied
  | no_specified_media_found
  | media_in_use
  | invalid_media_constraints
  | no_constraints
  | recorder_error
  | idle
  | acquiring_media
  | delayed_start
  | recording
  | stopping
  | stopped
  | requesting_media

text \<open>
  The first seven fields are the hook's refs and state cells, under their names. The
  \<^verbatim>\<open>error\<close> cell holds a key of \<^verbatim>\<open>RecorderErrors\<close> (at run time: any string, the
  name of whatever was caught). \<open>streams\<close> maps the handle of a stream to its tracks and
  \<open>streamCount\<close> is the next handle an acquisition gets; \<open>objectUrls\<close> is the platform's
  URL store; \<open>requested\<close>, \<open>onStopCalls\<close> and \<open>onStartCalls\<close> log the capability
  requests and the calls of the consumer's callbacks.
\<close>

record session =
  mediaRecorder :: "MediaRecorder option"
  mediaChunks :: "Chunk list"
  mediaStream :: "nat option"
  status :: StatusMessages
  isAudioMuted :: bool
  mediaBlobUrl :: "url option"
  error :: string
  streams :: "nat \<Rightarrow> MediaStreamTrack list"
  streamCount :: nat
  objectUrls :: "Blob list"
  requested :: "request list"
  onStopCalls :: "(url \<times> Blob) list"
  onStartCalls :: nat

definition initial_session :: "(nat \<Rightarrow> MediaStreamTrack list) \<Rightarrow> session" where
  "initial_session heap =
     \<lparr>mediaRecorder = None, mediaChunks = [], mediaStream = None, status = idle,
      isAudioMuted = False, mediaBlobUrl = None, error = ''NONE'',
      streams = heap, streamCount = 0, objectUrls = [], requested = [],
      onStopCalls = [], onStartCalls = 0\<rparr>"

text \<open>
  A callback returns, or throws with the session as it is at the throw.
\<close>

datatype outcome = Returns session | Throws fault session

fun session_of :: "outcome \<Rightarrow> session" where
  "session_of (Returns s) = s"
| "session_of (Throws f s) = s"

fun returns :: "outcome \<Rightarrow> bool" where
  "returns (Returns s) = True"
| "returns (Throws f s) = False"

text \<open>The enum \<^verbatim>\<open>RecorderErrors\<close>; a key it does not have reads as \<^verbatim>\<open>undefined\<close>.\<close>

definition RecorderErrors :: "string \<Rightarrow> string option" where
  "RecorderErrors =
     map_of
       [(''AbortError'', ''media_aborted''),
        (''NotAllowedError'', ''permission_denied''),
        (''NotFoundError'', ''no_specified_media_found''),
        (''NotReadableError'', ''media_in_use''),
        (''OverconstrainedError'', ''invalid_media_constraints''),
        (''TypeError'', ''no_constraints''),
        (''NONE'', ''''),
        (''NO_RECORDER'', ''recorder_error''),
        (''UnsupportedBrowserError'', ''unsupported_browser'')]"

text \<open>The \<^verbatim>\<open>error\<close> the hook returns to its consumer: \<^verbatim>\<open>RecorderErrors[error]\<close>.\<close>

definition error_field :: "session \<Rightarrow> string option" where
  "error_field s = RecorderErrors (error s)"

subsection \<open>Platform calls that change the session\<close>

text \<open>
  \<^verbatim>\<open>URL.createObjectURL(blob)\<close> enters the blob in the URL store and returns the URL
  of the new entry.
\<close>

definition createObjectURL :: "Blob \<Rightarrow> session \<Rightarrow> url \<times> session" where
  "createObjectURL b s = (BlobUrl (length (objectUrls s)), s\<lparr>objectUrls := objectUrls s @ [b]\<rparr>)"

text \<open>
  The stream a capability yields is a new object; \<^verbatim>\<open>setMediaStream(stream)\<close> keeps
  its handle.
\<close>

definition setMediaStream_acquired :: "MediaStreamTrack list \<Rightarrow> session \<Rightarrow> session" where
  "setMediaStream_acquired ts s =
     s\<lparr>streams := (streams s)(streamCount s := ts),
       streamCount := Suc (streamCount s),
       mediaStream := Some (streamCount s)\<rparr>"

subsection \<open>Acquisition\<close>

text \<open>The \<^verbatim>\<open>catch\<close> block of \<^verbatim>\<open>getMediaStream\<close>.\<close>

definition catch_acquisition :: "string \<Rightarrow> session \<Rightarrow> session" where
  "catch_acquisition name s = s\<lparr>error := name, status := idle\<rparr>"

definition requiredMedia :: "ReactMediaRecorderHookProps \<Rightarrow> MediaStreamConstraints" where
  "requiredMedia props =
     \<lparr>audio_constraint = Some (audio props), video_constraint = Some (video props)\<rparr>"

text \<open>The argument of \<^verbatim>\<open>getDisplayMedia\<close>: \<^verbatim>\<open>{ video: video || true }\<close>.\<close>

definition displayMedia_request :: "ReactMediaRecorderHookProps \<Rightarrow> MediaStreamConstraints" where
  "displayMedia_request props =
     \<lparr>audio_constraint = None,
      video_constraint = Some (if truthy (video props) then video props else Flag True)\<rparr>"

definition audioOnly_request :: "ReactMediaRecorderHookProps \<Rightarrow> MediaStreamConstraints" where
  "audioOnly_request props = \<lparr>audio_constraint = Some (audio props), video_constraint = None\<rparr>"

definition getMediaStream :: "ReactMediaRecorderHookProps \<Rightarrow> Platform \<Rightarrow> session \<Rightarrow> session" where
  "getMediaStream props pf s =
     (let s1 = s\<lparr>status := acquiring_media\<rparr> in
      case customMediaStream props of
        Some h \<Rightarrow> s1\<lparr>mediaStream := Some h, status := idle\<rparr>
      | None \<Rightarrow>
          if screen props then
            (let s2 = s1\<lparr>requested := requested s1 @ [DisplayMedia (displayMedia_request props)]\<rparr> in
             case getDisplayMedia pf (displayMedia_request props) of
               Inl name \<Rightarrow> catch_acquisition name s2
             | Inr ts \<Rightarrow>
                 if truthy (audio props) then
                   (let s3 = s2\<lparr>requested := requested s2 @ [UserMedia (audioOnly_request props)]\<rparr> in
                    case getUserMedia pf (audioOnly_request props) of
                      Inl name \<Rightarrow> catch_acquisition name s3
                    | Inr ats \<Rightarrow>
                        (setMediaStream_acquired (ts @ getAudioTracks ats) s3)\<lparr>status := idle\<rparr>)
                 else (setMediaStream_acquired ts s2)\<lparr>status := idle\<rparr>)
          else
            (let s2 = s1\<lparr>requested := requested s1 @ [UserMedia (requiredMedia props)]\<rparr> in
             case getUserMedia pf (requiredMedia props) of
               Inl name \<Rightarrow> catch_acquisition name s2
             | Inr ts \<Rightarrow> (setMediaStream_acquired ts s2)\<lparr>status := idle\<rparr>))"

text \<open>
  The effect run on mount and when \<^verbatim>\<open>audio\<close>, \<^verbatim>\<open>video\<close> or \<^verbatim>\<open>screen\<close> change.
  Its checks of the constraints and of the MIME type only write to the console.
\<close>

definition mountEffect :: "ReactMediaRecorderHookProps \<Rightarrow> Platform \<Rightarrow> session \<Rightarrow> outcome" where
  "mountEffect props pf s =
     (if \<not> hasMediaRecorder pf then Returns (s\<lparr>error := ''UnsupportedBrowserError''\<rparr>)
      else if screen props \<and> \<not> hasGetDisplayMedia pf then Throws ScreenCaptureUnsupported s
      else case mediaStream s of
             None \<Rightarrow> Returns (getMediaStream props pf s)
           | Some h \<Rightarrow> Returns s)"

subsection \<open>Recorder handlers and controls\<close>

definition onRecordingStart :: "session \<Rightarrow> session" where
  "onRecordingStart s = s\<lparr>onStartCalls := Suc (onStartCalls s)\<rparr>"

text \<open>
  The property bag of the blob:
  \<^verbatim>\<open>Object.assign({ type: chunk.type }, blobPropertyBag || (video ? { type: "video/mp4" } : { type: "audio/wav" }))\<close>.
\<close>

definition blobProperty :: "ReactMediaRecorderHookProps \<Rightarrow> Chunk \<Rightarrow> BlobPropertyBag" where
  "blobProperty props c =
     Object_assign \<lparr>bag_type = Some (chunk_type c), bag_endings = None\<rparr>
       (case blobPropertyBag props of
          Some bag \<Rightarrow> bag
        | None \<Rightarrow>
            if truthy (video props) then \<lparr>bag_type = Some ''video/mp4'', bag_endings = None\<rparr>
            else \<lparr>bag_type = Some ''audio/wav'', bag_endings = None\<rparr>)"

text \<open>
  The handler of the recorder's \<^verbatim>\<open>stop\<close> event. \<^verbatim>\<open>const [chunk] = mediaChunks.current\<close>
  leaves \<^verbatim>\<open>chunk\<close> undefined when the buffer is empty, and \<^verbatim>\<open>chunk.type\<close> then
  throws before anything is written.
\<close>

definition onRecordingStop :: "ReactMediaRecorderHookProps \<Rightarrow> session \<Rightarrow> outcome" where
  "onRecordingStop props s =
     (case mediaChunks s of
        [] \<Rightarrow> Throws TypeError s
      | c # cs \<Rightarrow>
          (let blob = new_Blob (mediaChunks s) (blobProperty props c);
               (u, s1) = createObjectURL blob s
           in Returns (s1\<lparr>status := stopped,
                          mediaBlobUrl := Some u,
                          onStopCalls := onStopCalls s1 @ [(u, blob)]\<rparr>)))"

definition muteAudio :: "bool \<Rightarrow> session \<Rightarrow> session" where
  "muteAudio mute s =
     (let s1 = s\<lparr>isAudioMuted := mute\<rparr> in
      case mediaStream s1 of
        None \<Rightarrow> s1
      | Some h \<Rightarrow>
          s1\<lparr>streams := (streams s1)
                (h := map (\<lambda>t. if kind t = AudioKind then t\<lparr>enabled := \<not> mute\<rparr> else t)
                        (streams s1 h))\<rparr>)"

definition pauseRecording :: "session \<Rightarrow> outcome" where
  "pauseRecording s =
     (case mediaRecorder s of
        None \<Rightarrow> Returns s
      | Some r \<Rightarrow>
          if state r = Recording then
            (case MediaRecorder_pause r of
               Inl f \<Rightarrow> Throws f s
             | Inr r' \<Rightarrow> Returns (s\<lparr>mediaRecorder := Some r'\<rparr>))
          else Returns s)"

definition resumeRecording :: "session \<Rightarrow> outcome" where
  "resumeRecording s =
     (case mediaRecorder s of
        None \<Rightarrow> Returns s
      | Some r \<Rightarrow>
          if state r = Paused then
            (case MediaRecorder_resume r of
               Inl f \<Rightarrow> Throws f s
             | Inr r' \<Rightarrow> Returns (s\<lparr>mediaRecorder := Some r'\<rparr>))
          else Returns s)"

definition onRecordingActive :: "Chunk \<Rightarrow> session \<Rightarrow> session" where
  "onRecordingActive data s = s\<lparr>mediaChunks := mediaChunks s @ [data]\<rparr>"

definition stopRecording :: "ReactMediaRecorderHookProps \<Rightarrow> session \<Rightarrow> session" where
  "stopRecording props s =
     (case mediaRecorder s of
        None \<Rightarrow> s
      | Some r \<Rightarrow>
          if state r \<noteq> Inactive then
            (let s1 = s\<lparr>status := stopping\<rparr>;
                 s2 = s1\<lparr>mediaRecorder := Some (MediaRecorder_stop r)\<rparr>;
                 s3 = (if stopStreamsOnStop props then
                         (case mediaStream s2 of
                            None \<Rightarrow> s2
                          | Some h \<Rightarrow> s2\<lparr>streams := (streams s2)(h := map track_stop (streams s2 h))\<rparr>)
                       else s2)
             in s3\<lparr>mediaChunks := []\<rparr>)
          else s)"

text \<open>The \<^verbatim>\<open>onerror\<close> handler \<^verbatim>\<open>startRecording\<close> installs.\<close>

definition onRecordingError :: "session \<Rightarrow> session" where
  "onRecordingError s = s\<lparr>error := ''NO_RECORDER'', status := idle\<rparr>"

text \<open>
  \<^verbatim>\<open>startRecording\<close>. The stream is the one the call finds in \<^verbatim>\<open>mediaStream\<close>: the
  recorder is made from it also after \<^verbatim>\<open>await getMediaStream()\<close>, which writes the
  state cell and not the constant the callback closed over. The call is taken as one
  step; nothing runs between the \<^verbatim>\<open>await\<close> and the rest.
\<close>

definition isStreamEnded :: "MediaStreamTrack list \<Rightarrow> bool" where
  "isStreamEnded ts = list_ex (\<lambda>track. readyState track = Ended) ts"

definition startRecording :: "ReactMediaRecorderHookProps \<Rightarrow> Platform \<Rightarrow> session \<Rightarrow> outcome" where
  "startRecording props pf s =
     (let s1 = s\<lparr>error := ''NONE''\<rparr> in
      case mediaStream s1 of
        None \<Rightarrow> Returns s1
      | Some h \<Rightarrow>
          (let s2 = (if isStreamEnded (streams s1 h) then getMediaStream props pf s1 else s1);
               s3 = s2\<lparr>mediaRecorder := Some (MediaRecorder_new h)\<rparr>
           in case MediaRecorder_start pf (streams s3 h) (MediaRecorder_new h) of
                Inl f \<Rightarrow> Throws f s3
              | Inr r \<Rightarrow> Returns (s3\<lparr>mediaRecorder := Some r, status := recording\<rparr>)))"

definition stopMediaStream :: "session \<Rightarrow> session" where
  "stopMediaStream s =
     (case mediaStream s of
        None \<Rightarrow> s
      | Some h \<Rightarrow> s\<lparr>streams := (streams s)(h := map track_stop (streams s h))\<rparr>)"

definition clearBlobUrl :: "session \<Rightarrow> session" where
  "clearBlobUrl s = s\<lparr>mediaBlobUrl := None\<rparr>"

subsection \<open>The variant that keeps the stream in a ref\<close>

text \<open>
  The second version of the hook holds the stream in \<^verbatim>\<open>mediaStream.current\<close>. Its
  \<^verbatim>\<open>startRecording\<close> computes \<^verbatim>\<open>isStreamEnded\<close> and does not read it; its
  \<^verbatim>\<open>muteAudio\<close> is the first version's with the optional call written as a test.
\<close>

definition startRecording_ref :: "Platform \<Rightarrow> session \<Rightarrow> outcome" where
  "startRecording_ref pf s =
     (let s1 = s\<lparr>error := ''NONE''\<rparr> in
      case mediaStream s1 of
        None \<Rightarrow> Returns s1
      | Some h \<Rightarrow>
          (let s3 = s1\<lparr>mediaRecorder := Some (MediaRecorder_new h)\<rparr>
           in case MediaRecorder_start pf (streams s3 h) (MediaRecorder_new h) of
                Inl f \<Rightarrow> Throws f s3
              | Inr r \<Rightarrow> Returns (s3\<lparr>mediaRecorder := Some r, status := recording\<rparr>)))"

definition muteAudio_ref :: "bool \<Rightarrow> session \<Rightarrow> session" where
  "muteAudio_ref mute s =
     (let s1 = s\<lparr>isAudioMuted := mute\<rparr> in
      case mediaStream s1 of
        Some h \<Rightarrow>
          s1\<lparr>streams := (streams s1)
                (h := map (\<lambda>t. if kind t = AudioKind then t\<lparr>enabled := \<not> mute\<rparr> else t)
                        (streams s1 h))\<rparr>
      | None \<Rightarrow> s1)"

subsection \<open>Histories\<close>

text \<open>
  What can happen to a session: the consumer calls one of the returned functions, the
  mount effect runs, or the recorder fires an event and the installed handler runs. A
  callback that throws leaves the session as it is at the throw.
\<close>

datatype event =
    Mount Platform
  | StartRecording Platform
  | StopRecording
  | PauseRecording
  | ResumeRecording
  | MuteAudio
  | UnMuteAudio
  | ClearBlobUrl
  | StopMediaStream
  | DataAvailable Chunk
  | RecorderStart
  | RecorderStop
  | RecorderError

fun step :: "ReactMediaRecorderHookProps \<Rightarrow> session \<Rightarrow> event \<Rightarrow> session" where
  "step props s (Mount pf) = session_of (mountEffect props pf s)"
| "step props s (StartRecording pf) = session_of (startRecording props pf s)"
| "step props s StopRecording = stopRecording props s"
| "step props s PauseRecording = session_of (pauseRecording s)"
| "step props s ResumeRecording = session_of (resumeRecording s)"
| "step props s MuteAudio = muteAudio True s"
| "step props s UnMuteAudio = muteAudio False s"
| "step props s ClearBlobUrl = clearBlobUrl s"
| "step props s StopMediaStream = stopMediaStream s"
| "step props s (DataAvailable c) = onRecordingActive c s"
| "step props s RecorderStart = onRecordingStart s"
| "step props s RecorderStop = session_of (onRecordingStop props s)"
| "step props s RecorderError = onRecordingError s"

definition run :: "ReactMediaRecorderHookProps \<Rightarrow> session \<Rightarrow> event list \<Rightarrow> session" where
  "run props s es = foldl (step props) s es"

text \<open>
  The events that can fall inside a recording cycle without ending it or starting
  another: chunks, the recorder's \<^verbatim>\<open>start\<close> event, pause and resume, mute and
  unmute, and clearing the blob URL.
\<close>

fun in_cycle :: "event \<Rightarrow> bool" where
  "in_cycle (DataAvailable c) = True"
| "in_cycle RecorderStart = True"
| "in_cycle PauseRecording = True"
| "in_cycle ResumeRecording = True"
| "in_cycle MuteAudio = True"
| "in_cycle UnMuteAudio = True"
| "in_cycle ClearBlobUrl = True"
| "in_cycle e = False"

text \<open>The chunks a history delivers, in their order.\<close>

fun chunk_of :: "event \<Rightarrow> Chunk list" where
  "chunk_of (DataAvailable c) = [c]"
| "chunk_of e = []"

definition delivered :: "event list \<Rightarrow> Chunk list" where
  "delivered es = concat (map chunk_of es)"

text \<open>A recorder exists and is not inactive.\<close>

definition recorder_active :: "session \<Rightarrow> bool" where
  "recorder_active s =
     (case mediaRecorder s of None \<Rightarrow> False | Some r \<Rightarrow> state r \<noteq> Inactive)"

text \<open>
  The URL in \<^verbatim>\<open>mediaBlobUrl\<close>, when there is one, is an entry of the URL store.
\<close>

fun url_index :: "url \<Rightarrow> nat" where
  "url_index (BlobUrl n) = n"

definition url_issued :: "session \<Rightarrow> bool" where
  "url_issued s = (\<forall>u. mediaBlobUrl s = Some u \<longrightarrow> url_index u < length (objectUrls s))"

text \<open>
  An acquisition is rejected with the error \<open>name\<close>: no stream is supplied by the
  caller, and the first capability the hook's path asks that rejects, rejects with
  that name.
\<close>

definition rejects_with :: "ReactMediaRecorderHookProps \<Rightarrow> Platform \<Rightarrow> string \<Rightarrow> bool" where
  "rejects_with props pf name =
     (customMediaStream props = None \<and>
      (if screen props then
         (case getDisplayMedia pf (displayMedia_request props) of
            Inl n \<Rightarrow> n = name
          | Inr ts \<Rightarrow>
              truthy (audio props) \<and>
              (case getUserMedia pf (audioOnly_request props) of
                 Inl n \<Rightarrow> n = name
               | Inr ats \<Rightarrow> False))
       else
         (case getUserMedia pf (requiredMedia props) of
            Inl n \<Rightarrow> n = name
          | Inr ts \<Rightarrow> False)))"

subsection \<open>Concrete sessions\<close>

definition live_audio :: MediaStreamTrack where
  "live_audio = \<lparr>kind = AudioKind, enabled = True, readyState = Live\<rparr>"

definition live_video :: MediaStreamTrack where
  "live_video = \<lparr>kind = VideoKind, enabled = True, readyState = Live\<rparr>"

text \<open>
  A browser that grants every request, and one whose user denies every request. Both
  refuse to record a stream that is not active.
\<close>

definition microphone :: Platform where
  "microphone =
     \<lparr>hasMediaRecorder = True, hasGetDisplayMedia = True,
      getUserMedia = (\<lambda>q. Inr [live_audio]),
      getDisplayMedia = (\<lambda>q. Inr [live_video]),
      refusesStart = (\<lambda>ts. if stream_active ts then None else Some NotSupportedError)\<rparr>"

definition refusing :: Platform where
  "refusing =
     \<lparr>hasMediaRecorder = True, hasGetDisplayMedia = True,
      getUserMedia = (\<lambda>q. Inl ''NotAllowedError''),
      getDisplayMedia = (\<lambda>q. Inl ''NotAllowedError''),
      refusesStart = (\<lambda>ts. if stream_active ts then None else Some NotSupportedError)\<rparr>"

text \<open>A browser that finds no device for any request.\<close>

definition no_device :: Platform where
  "no_device =
     \<lparr>hasMediaRecorder = True, hasGetDisplayMedia = True,
      getUserMedia = (\<lambda>q. Inl ''NotFoundError''),
      getDisplayMedia = (\<lambda>q. Inl ''NotFoundError''),
      refusesStart = (\<lambda>ts. if stream_active ts then None else Some NotSupportedError)\<rparr>"

definition chunk_a :: Chunk where
  "chunk_a = \<lparr>chunk_bytes = [26, 69], chunk_type = ''audio/webm''\<rparr>"

definition chunk_b :: Chunk where
  "chunk_b = \<lparr>chunk_bytes = [223, 163], chunk_type = ''audio/webm''\<rparr>"

definition no_streams :: "nat \<Rightarrow> MediaStreamTrack list" where
  "no_streams h = []"

text \<open>A fresh session whose buffer holds the given chunks.\<close>

definition buffered :: "Chunk list \<Rightarrow> session" where
  "buffered cs = (initial_session no_streams)\<lparr>mediaChunks := cs\<rparr>"

text \<open>Mounted, started, and one chunk received.\<close>

definition recording_session :: session where
  "recording_session =
     run default_props (initial_session no_streams)
       [Mount microphone, StartRecording microphone, DataAvailable chunk_a]"

definition stopped_once :: session where
  "stopped_once = stopRecording default_props recording_session"

text \<open>A session on a stream whose video track has ended and whose audio track is live.\<close>

definition half_ended_session :: session where
  "half_ended_session =
     (initial_session (no_streams(0 := [live_audio, live_video\<lparr>readyState := Ended\<rparr>])))
       \<lparr>mediaStream := Some 0, streamCount := 1\<rparr>"

text \<open>A session on a stream whose audio track is disabled.\<close>

definition muted_microphone :: session where
  "muted_microphone =
     (initial_session (no_streams(0 := [live_audio\<lparr>enabled := False\<rparr>, live_video])))
       \<lparr>mediaStream := Some 0, streamCount := 1\<rparr>"

section \<open>Properties\<close>

subsection \<open>Evaluation and frame lemmas\<close>

lemmas hook_defs =
  initial_session_def default_props_def microphone_def chunk_a_def chunk_b_def
  live_audio_def live_video_def no_streams_def
  run_def mountEffect_def getMediaStream_def startRecording_def stopRecording_def
  onRecordingActive_def onRecordingStop_def onRecordingStart_def onRecordingError_def
  pauseRecording_def resumeRecording_def muteAudio_def clearBlobUrl_def stopMediaStream_def
  MediaRecorder_new_def MediaRecorder_start_def MediaRecorder_stop_def MediaRecorder_pause_def
  MediaRecorder_resume_def stream_active_def isStreamEnded_def track_stop_def getAudioTracks_def
  setMediaStream_acquired_def catch_acquisition_def requiredMedia_def displayMedia_request_def
  audioOnly_request_def createObjectURL_def new_Blob_def blobProperty_def Object_assign_def
  Let_def

lemma onRecordingStop_nonempty:
  "mediaChunks s = c # cs \<Longrightarrow>
   onRecordingStop props s =
     Returns (s\<lparr>objectUrls := objectUrls s @ [new_Blob (c # cs) (blobProperty props c)],
               status := stopped,
               mediaBlobUrl := Some (BlobUrl (length (objectUrls s))),
               onStopCalls := onStopCalls s @
                 [(BlobUrl (length (objectUrls s)), new_Blob (c # cs) (blobProperty props c))]\<rparr>)"
  by (simp add: onRecordingStop_def createObjectURL_def Let_def)

lemma startRecording_returns:
  "mediaStream s = Some h \<Longrightarrow> startRecording props pf s = Returns s1 \<Longrightarrow>
   mediaRecorder s1 = Some \<lparr>stream = h, state = Recording\<rparr> \<and> status s1 = recording \<and>
   mediaChunks s1 = mediaChunks s"
  by (auto simp: startRecording_def Let_def MediaRecorder_start_def MediaRecorder_new_def
        getMediaStream_def catch_acquisition_def setMediaStream_acquired_def
      split: option.splits sum.splits if_splits)

lemma startRecording_chunks:
  "mediaChunks (session_of (startRecording props pf s)) = mediaChunks s \<and>
   onStopCalls (session_of (startRecording props pf s)) = onStopCalls s"
  by (simp add: startRecording_def Let_def getMediaStream_def catch_acquisition_def
      setMediaStream_acquired_def split: option.splits sum.splits)

lemma returns_session_of: "returns x \<Longrightarrow> x = Returns (session_of x)"
  by (cases x) simp_all

lemma recording_session_eq:
  "recording_session =
     \<lparr>mediaRecorder = Some \<lparr>stream = 0, state = Recording\<rparr>, mediaChunks = [chunk_a],
      mediaStream = Some 0, status = recording, isAudioMuted = False, mediaBlobUrl = None,
      error = ''NONE'', streams = no_streams(0 := [live_audio]), streamCount = 1,
      objectUrls = [],
      requested = [UserMedia \<lparr>audio_constraint = Some (Flag True), video_constraint = Some (Flag False)\<rparr>],
      onStopCalls = [], onStartCalls = 0\<rparr>"
  by (simp add: recording_session_def initial_session_def default_props_def microphone_def
      run_def mountEffect_def getMediaStream_def startRecording_def onRecordingActive_def
      MediaRecorder_new_def MediaRecorder_start_def stream_active_def isStreamEnded_def
      setMediaStream_acquired_def requiredMedia_def live_audio_def Let_def)

subsection \<open>Object URLs along a history\<close>

lemma getMediaStream_urls:
  "objectUrls (getMediaStream props pf s) = objectUrls s \<and>
   mediaBlobUrl (getMediaStream props pf s) = mediaBlobUrl s"
  by (simp add: getMediaStream_def Let_def catch_acquisition_def setMediaStream_acquired_def
      split: option.splits sum.splits)

lemma mountEffect_urls:
  "objectUrls (session_of (mountEffect props pf s)) = objectUrls s \<and>
   mediaBlobUrl (session_of (mountEffect props pf s)) = mediaBlobUrl s"
  by (simp add: mountEffect_def getMediaStream_urls split: option.splits)

lemma startRecording_urls:
  "objectUrls (session_of (startRecording props pf s)) = objectUrls s \<and>
   mediaBlobUrl (session_of (startRecording props pf s)) = mediaBlobUrl s"
  by (simp add: startRecording_def Let_def getMediaStream_urls split: option.splits sum.splits)

lemma stopRecording_urls:
  "objectUrls (stopRecording props s) = objectUrls s \<and>
   mediaBlobUrl (stopRecording props s) = mediaBlobUrl s"
  by (simp add: stopRecording_def Let_def split: option.splits)

lemma pauseRecording_urls:
  "objectUrls (session_of (pauseRecording s)) = objectUrls s \<and>
   mediaBlobUrl (session_of (pauseRecording s)) = mediaBlobUrl s"
  by (simp add: pauseRecording_def split: option.splits sum.splits)

lemma resumeRecording_urls:
  "objectUrls (session_of (resumeRecording s)) = objectUrls s \<and>
   mediaBlobUrl (session_of (resumeRecording s)) = mediaBlobUrl s"
  by (simp add: resumeRecording_def split: option.splits sum.splits)

lemma muteAudio_urls:
  "objectUrls (muteAudio m s) = objectUrls s \<and> mediaBlobUrl (muteAudio m s) = mediaBlobUrl s"
  by (simp add: muteAudio_def Let_def split: option.splits)

lemma stopMediaStream_urls:
  "objectUrls (stopMediaStream s) = objectUrls s \<and>
   mediaBlobUrl (stopMediaStream s) = mediaBlobUrl s"
  by (simp add: stopMediaStream_def split: option.splits)

lemma onRecordingStop_urls:
  "length (objectUrls s) \<le> length (objectUrls (session_of (onRecordingStop props s))) \<and>
   (url_issued s \<longrightarrow> url_issued (session_of (onRecordingStop props s)))"
  by (simp add: onRecordingStop_def createObjectURL_def Let_def url_issued_def split: list.splits)

text \<open>No step withdraws a URL, and every step keeps \<^verbatim>\<open>mediaBlobUrl\<close> in the store.\<close>

lemma step_urls:
  "length (objectUrls s) \<le> length (objectUrls (step props s e)) \<and>
   (url_issued s \<longrightarrow> url_issued (step props s e))"
proof (cases e)
  case (Mount pf)
  then show ?thesis by (simp add: mountEffect_urls url_issued_def)
next
  case (StartRecording pf)
  then show ?thesis by (simp add: startRecording_urls url_issued_def)
next
  case StopRecording
  then show ?thesis by (simp add: stopRecording_urls url_issued_def)
next
  case PauseRecording
  then show ?thesis by (simp add: pauseRecording_urls url_issued_def)
next
  case ResumeRecording
  then show ?thesis by (simp add: resumeRecording_urls url_issued_def)
next
  case MuteAudio
  then show ?thesis by (simp add: muteAudio_urls url_issued_def)
next
  case UnMuteAudio
  then show ?thesis by (simp add: muteAudio_urls url_issued_def)
next
  case ClearBlobUrl
  then show ?thesis by (simp add: clearBlobUrl_def url_issued_def)
next
  case StopMediaStream
  then show ?thesis by (simp add: stopMediaStream_urls url_issued_def)
next
  case (DataAvailable c)
  then show ?thesis by (simp add: onRecordingActive_def url_issued_def)
next
  case RecorderStart
  then show ?thesis by (simp add: onRecordingStart_def url_issued_def)
next
  case RecorderStop
  then show ?thesis using onRecordingStop_urls [of s props] by simp
next
  case RecorderError
  then show ?thesis by (simp add: onRecordingError_def url_issued_def)
qed

lemma run_snoc: "run props s (es @ [e]) = step props (run props s es) e"
  by (simp add: run_def)

lemma run_append: "run props s (es @ fs) = run props (run props s es) fs"
  by (simp add: run_def)

lemma run_urls:
  "length (objectUrls s) \<le> length (objectUrls (run props s es)) \<and>
   (url_issued s \<longrightarrow> url_issued (run props s es))"
proof (induction es rule: rev_induct)
  case Nil
  show ?case by (simp add: run_def)
next
  case (snoc e es)
  show ?case
    using snoc step_urls [of "run props s es" props e]
    by (auto simp: run_snoc)
qed

lemma url_issued_initial: "url_issued (initial_session heap)"
  by (simp add: url_issued_def initial_session_def)

text \<open>
  Whatever \<^verbatim>\<open>mediaBlobUrl\<close> held at an earlier point of a history is an entry of
  the URL store at its end.
\<close>

lemma earlier_urls_issued:
  assumes "mediaBlobUrl (run props (initial_session heap) (take k es)) = Some u"
  shows "url_index u < length (objectUrls (run props (initial_session heap) es))"
proof -
  let ?i = "initial_session heap"
  have "url_issued (run props ?i (take k es))"
    using run_urls [of ?i props "take k es"] url_issued_initial by simp
  with assms have "url_index u < length (objectUrls (run props ?i (take k es)))"
    by (simp add: url_issued_def)
  moreover have "run props ?i es = run props (run props ?i (take k es)) (drop k es)"
    using run_append [of props ?i "take k es" "drop k es"] by simp
  ultimately show ?thesis
    using run_urls [of "run props ?i (take k es)" props "drop k es"] by simp
qed

subsection \<open>The buffer along a cycle\<close>

lemma run_Cons: "run props s (e # es) = run props (step props s e) es"
  by (simp add: run_def)

text \<open>
  An event inside a cycle appends its chunk, if it has one, and leaves an active
  recorder active and an inactive one inactive.
\<close>

lemma in_cycle_step:
  assumes "in_cycle e"
  shows "mediaChunks (step props s e) = mediaChunks s @ chunk_of e \<and>
         onStopCalls (step props s e) = onStopCalls s \<and>
         recorder_active (step props s e) = recorder_active s"
proof (cases e)
  case (DataAvailable c)
  then show ?thesis by (simp add: onRecordingActive_def recorder_active_def)
next
  case RecorderStart
  then show ?thesis by (simp add: onRecordingStart_def recorder_active_def)
next
  case PauseRecording
  then show ?thesis
    by (auto simp: pauseRecording_def MediaRecorder_pause_def recorder_active_def
        split: option.splits)
next
  case ResumeRecording
  then show ?thesis
    by (auto simp: resumeRecording_def MediaRecorder_resume_def recorder_active_def
        split: option.splits)
next
  case MuteAudio
  then show ?thesis by (simp add: muteAudio_def Let_def recorder_active_def split: option.splits)
next
  case UnMuteAudio
  then show ?thesis by (simp add: muteAudio_def Let_def recorder_active_def split: option.splits)
next
  case ClearBlobUrl
  then show ?thesis by (simp add: clearBlobUrl_def recorder_active_def)
qed (use assms in simp_all)

lemma in_cycle_run:
  "list_all in_cycle es \<Longrightarrow>
   mediaChunks (run props s es) = mediaChunks s @ delivered es \<and>
   onStopCalls (run props s es) = onStopCalls s \<and>
   recorder_active (run props s es) = recorder_active s"
proof (induction es arbitrary: s)
  case Nil
  show ?case by (simp add: run_def delivered_def)
next
  case (Cons e es)
  then have e: "in_cycle e" and es: "list_all in_cycle es"
    by simp_all
  show ?case
    using Cons.IH [OF es, of "step props s e"] in_cycle_step [OF e, of props s]
    by (simp add: run_Cons delivered_def)
qed

lemma stopRecording_clears:
  "recorder_active s \<Longrightarrow>
   mediaChunks (stopRecording props s) = [] \<and>
   onStopCalls (stopRecording props s) = onStopCalls s \<and>
   \<not> recorder_active (stopRecording props s)"
  by (auto simp: recorder_active_def stopRecording_def MediaRecorder_stop_def Let_def
      split: option.splits)

lemma startRecording_active:
  assumes "mediaStream s = Some h" and "startRecording props pf s = Returns s1"
  shows "recorder_active s1"
  using startRecording_returns [OF assms] by (simp add: recorder_active_def)

text \<open>
  After \<^verbatim>\<open>stopRecording\<close> on an active recorder the buffer holds what arrives
  afterwards, and the \<^verbatim>\<open>stop\<close> handler builds the blob from that.
\<close>

lemma live_buffer_finalize:
  assumes active: "recorder_active s"
    and late: "list_all in_cycle late"
    and chunk: "delivered late \<noteq> []"
  shows "mediaChunks (stopRecording props s) = [] \<and>
         (\<exists>u blob.
            returns (onRecordingStop props (run props (stopRecording props s) late)) \<and>
            onStopCalls (session_of (onRecordingStop props (run props (stopRecording props s) late))) =
              onStopCalls s @ [(u, blob)] \<and>
            blobParts blob = delivered late)"
proof -
  let ?s = "run props (stopRecording props s) late"
  have stop: "mediaChunks (stopRecording props s) = []"
    "onStopCalls (stopRecording props s) = onStopCalls s"
    using stopRecording_clears [OF active] by simp_all
  obtain c cs where cs: "delivered late = c # cs"
    using chunk by (cases "delivered late") simp_all
  have "mediaChunks ?s = c # cs" "onStopCalls ?s = onStopCalls s"
    using in_cycle_run [OF late, of props "stopRecording props s"] stop by (simp_all add: cs)
  then show ?thesis
    using stop(1) by (simp add: onRecordingStop_nonempty new_Blob_def cs)
qed

lemma cycle_buffer:
  assumes stream: "mediaStream s \<noteq> None"
    and start: "returns (startRecording props pf s)"
    and mid: "list_all in_cycle mid"
    and late: "list_all in_cycle late"
  shows "mediaChunks (run props s ([StartRecording pf] @ mid @ [StopRecording] @ late)) =
           delivered late"
proof -
  let ?s1 = "session_of (startRecording props pf s)"
  obtain h where h: "mediaStream s = Some h"
    using stream by blast
  have "startRecording props pf s = Returns ?s1"
    using start by (rule returns_session_of)
  with h have "recorder_active ?s1"
    by (rule startRecording_active)
  then have "recorder_active (run props ?s1 mid)"
    using in_cycle_run [OF mid, of props ?s1] by simp
  then have "mediaChunks (stopRecording props (run props ?s1 mid)) = []"
    by (simp add: stopRecording_clears)
  then have "mediaChunks (run props (stopRecording props (run props ?s1 mid)) late) = delivered late"
    using in_cycle_run [OF late, of props "stopRecording props (run props ?s1 mid)"] by simp
  moreover have "run props s ([StartRecording pf] @ mid @ [StopRecording] @ late) =
      run props (stopRecording props (run props ?s1 mid)) late"
    by (simp add: run_append run_Cons)
  ultimately show ?thesis by simp
qed

subsection \<open>C1: the finalize handler after a completed cycle\<close>

text \<open>
  C1, amended. For every completed recording cycle (\<^verbatim>\<open>startRecording\<close> succeeds,
  then \<^verbatim>\<open>stopRecording\<close> on the active recorder, then the recorder's \<^verbatim>\<open>stop\<close>
  event fires) in which at least one chunk is delivered between the call of
  \<^verbatim>\<open>stopRecording\<close> and the \<^verbatim>\<open>stop\<close> event, the finalize handler sets status to
  \<^verbatim>\<open>stopped\<close>, sets \<^verbatim>\<open>mediaBlobUrl\<close> to a URL that \<^verbatim>\<open>mediaBlobUrl\<close> held at no
  earlier point of the session's history, and calls \<^verbatim>\<open>onStop\<close> exactly once, with that
  URL and the blob assembled from the chunks delivered after the call of
  \<^verbatim>\<open>stopRecording\<close>.
\<close>

theorem finalize_completed_cycle:
  assumes hist: "es = es0 @ [StartRecording pf] @ mid @ [StopRecording] @ late"
    and mid: "list_all in_cycle mid"
    and late: "list_all in_cycle late"
    and stream: "mediaStream (run props (initial_session heap) es0) \<noteq> None"
    and start: "returns (startRecording props pf (run props (initial_session heap) es0))"
    and chunk: "delivered late \<noteq> []"
    and fin: "s = run props (initial_session heap) es"
  shows "\<exists>u blob.
           onRecordingStop props s =
             Returns (s\<lparr>objectUrls := objectUrls s @ [blob],
                       status := stopped,
                       mediaBlobUrl := Some u,
                       onStopCalls := onStopCalls s @ [(u, blob)]\<rparr>) \<and>
           blobParts blob = delivered late \<and>
           u = BlobUrl (length (objectUrls s)) \<and>
           (\<forall>k. mediaBlobUrl (run props (initial_session heap) (take k es)) \<noteq> Some u)"
proof -
  let ?i = "initial_session heap"
  have s: "s = run props (run props ?i es0) ([StartRecording pf] @ mid @ [StopRecording] @ late)"
    using fin hist by (simp only: run_append)
  have buf: "mediaChunks s = delivered late"
    unfolding s using stream start mid late by (rule cycle_buffer)
  obtain c cs where cs: "delivered late = c # cs"
    using chunk by (cases "delivered late") simp_all
  let ?blob = "new_Blob (c # cs) (blobProperty props c)"
  let ?u = "BlobUrl (length (objectUrls s))"
  have "onRecordingStop props s =
          Returns (s\<lparr>objectUrls := objectUrls s @ [?blob], status := stopped,
                    mediaBlobUrl := Some ?u, onStopCalls := onStopCalls s @ [(?u, ?blob)]\<rparr>)"
    using buf cs by (simp add: onRecordingStop_nonempty)
  moreover have "blobParts ?blob = delivered late"
    by (simp add: new_Blob_def cs)
  moreover have "\<forall>k. mediaBlobUrl (run props ?i (take k es)) \<noteq> Some ?u"
  proof (intro allI notI)
    fix k
    assume "mediaBlobUrl (run props ?i (take k es)) = Some ?u"
    then have "url_index ?u < length (objectUrls (run props ?i es))"
      by (rule earlier_urls_issued)
    then show False
      by (simp add: fin)
  qed
  ultimately show ?thesis by blast
qed

text \<open>
  The theorem at a history: mount with a granting browser, start, the \<^verbatim>\<open>start\<close>
  event, one chunk, pause, resume, stop, one more chunk.
\<close>

theorem finalize_completed_cycle_witness:
  "list_all in_cycle [RecorderStart, DataAvailable chunk_a, PauseRecording, ResumeRecording] \<and>
   list_all in_cycle [DataAvailable chunk_b] \<and>
   mediaStream (run default_props (initial_session no_streams) [Mount microphone]) \<noteq> None \<and>
   returns (startRecording default_props microphone
              (run default_props (initial_session no_streams) [Mount microphone])) \<and>
   delivered [DataAvailable chunk_b] = [chunk_b] \<and>
   (\<exists>u blob.
      onRecordingStop default_props
        (run default_props (initial_session no_streams)
           ([Mount microphone] @ [StartRecording microphone] @
            [RecorderStart, DataAvailable chunk_a, PauseRecording, ResumeRecording] @
            [StopRecording] @ [DataAvailable chunk_b])) =
      Returns ((run default_props (initial_session no_streams)
           ([Mount microphone] @ [StartRecording microphone] @
            [RecorderStart, DataAvailable chunk_a, PauseRecording, ResumeRecording] @
            [StopRecording] @ [DataAvailable chunk_b]))
           \<lparr>objectUrls := [blob], status := stopped, mediaBlobUrl := Some u,
            onStopCalls := [(u, blob)]\<rparr>) \<and>
      blobParts blob = [chunk_b] \<and> u = BlobUrl 0 \<and>
      mediaBlobUrl (run default_props (initial_session no_streams) [Mount microphone]) \<noteq> Some u)"
proof -
  let ?i = "initial_session no_streams"
  let ?mid = "[RecorderStart, DataAvailable chunk_a, PauseRecording, ResumeRecording]"
  let ?late = "[DataAvailable chunk_b]"
  let ?es = "[Mount microphone] @ [StartRecording microphone] @ ?mid @ [StopRecording] @ ?late"
  have mid: "list_all in_cycle ?mid"
    by simp
  have late: "list_all in_cycle ?late"
    by simp
  have stream: "mediaStream (run default_props ?i [Mount microphone]) \<noteq> None"
    by (simp add: hook_defs)
  have start: "returns (startRecording default_props microphone (run default_props ?i [Mount microphone]))"
    by (simp add: hook_defs)
  have chunk: "delivered ?late \<noteq> []" and d: "delivered ?late = [chunk_b]"
    by (simp_all add: delivered_def)
  have urls: "objectUrls (run default_props ?i ?es) = []"
    by (simp add: hook_defs)
  have calls: "onStopCalls (run default_props ?i ?es) = []"
    by (simp add: hook_defs)
  have pre: "take 1 ?es = [Mount microphone]"
    by simp
  from finalize_completed_cycle [OF refl mid late stream start chunk refl]
  obtain u blob where
    "onRecordingStop default_props (run default_props ?i ?es) =
       Returns ((run default_props ?i ?es)
         \<lparr>objectUrls := objectUrls (run default_props ?i ?es) @ [blob], status := stopped,
          mediaBlobUrl := Some u,
          onStopCalls := onStopCalls (run default_props ?i ?es) @ [(u, blob)]\<rparr>)"
    "blobParts blob = delivered ?late"
    "u = BlobUrl (length (objectUrls (run default_props ?i ?es)))"
    "\<forall>k. mediaBlobUrl (run default_props ?i (take k ?es)) \<noteq> Some u"
    by blast
  then have "onRecordingStop default_props (run default_props ?i ?es) =
       Returns ((run default_props ?i ?es)
         \<lparr>objectUrls := [blob], status := stopped, mediaBlobUrl := Some u,
          onStopCalls := [(u, blob)]\<rparr>) \<and>
      blobParts blob = [chunk_b] \<and> u = BlobUrl 0 \<and>
      mediaBlobUrl (run default_props ?i (take 1 ?es)) \<noteq> Some u"
    by (simp only: urls calls d append_Nil list.size) blast
  then show ?thesis
    using mid late stream start d unfolding pre by blast
qed

text \<open>
  C1 as stated fails on the cycle mount, start, stop, \<^verbatim>\<open>stop\<close> event: the start
  succeeds and the recorder is recording when \<^verbatim>\<open>stopRecording\<close> is called, the
  handler of the \<^verbatim>\<open>stop\<close> event throws on the emptied buffer, status stays
  \<^verbatim>\<open>stopping\<close>, \<^verbatim>\<open>mediaBlobUrl\<close> stays null and \<^verbatim>\<open>onStop\<close> is not called.
\<close>

theorem cycle_without_late_chunk_counterexample:
  "mediaStream (run default_props (initial_session no_streams) [Mount microphone]) = Some 0 \<and>
   returns (startRecording default_props microphone
              (run default_props (initial_session no_streams) [Mount microphone])) \<and>
   map_option state (mediaRecorder (run default_props (initial_session no_streams)
              [Mount microphone, StartRecording microphone])) = Some Recording \<and>
   returns (onRecordingStop default_props (run default_props (initial_session no_streams)
              [Mount microphone, StartRecording microphone, StopRecording])) = False \<and>
   status (run default_props (initial_session no_streams)
              [Mount microphone, StartRecording microphone, StopRecording, RecorderStop]) = stopping \<and>
   mediaBlobUrl (run default_props (initial_session no_streams)
              [Mount microphone, StartRecording microphone, StopRecording, RecorderStop]) = None \<and>
   onStopCalls (run default_props (initial_session no_streams)
              [Mount microphone, StartRecording microphone, StopRecording, RecorderStop]) = []"
  by (simp add: hook_defs)

subsection \<open>C2: the type of the blob\<close>

text \<open>
  C2, amended. For every finalize invocation that finds a first chunk, the blob is
  constructed with the type of the \<^verbatim>\<open>blobPropertyBag\<close> when one is configured and has
  a type, with the first chunk's reported type when one is configured and has no type,
  and, when none is configured, with \<^verbatim>\<open>video/mp4\<close> if video was requested and
  \<^verbatim>\<open>audio/wav\<close> otherwise, whatever type the first chunk reports.
\<close>

theorem blob_type_policy:
  assumes "mediaChunks s = c # cs"
  shows "\<exists>u blob.
           returns (onRecordingStop props s) \<and>
           onStopCalls (session_of (onRecordingStop props s)) = onStopCalls s @ [(u, blob)] \<and>
           blob_type blob =
             (case blobPropertyBag props of
                None \<Rightarrow> if truthy (video props) then ''video/mp4'' else ''audio/wav''
              | Some bag \<Rightarrow> (case bag_type bag of Some t \<Rightarrow> t | None \<Rightarrow> chunk_type c))"
  using assms
  by (simp add: onRecordingStop_nonempty new_Blob_def blobProperty_def Object_assign_def
      split: option.splits)

theorem blob_type_policy_witness:
  "mediaChunks (buffered [chunk_a, chunk_b]) = chunk_a # [chunk_b] \<and>
   (\<exists>u blob.
      returns (onRecordingStop default_props (buffered [chunk_a, chunk_b])) \<and>
      onStopCalls (session_of (onRecordingStop default_props (buffered [chunk_a, chunk_b]))) =
        [(u, blob)] \<and>
      blob_type blob = ''audio/wav'')"
proof -
  have buf: "mediaChunks (buffered [chunk_a, chunk_b]) = chunk_a # [chunk_b]"
    by (simp add: buffered_def)
  have calls: "onStopCalls (buffered [chunk_a, chunk_b]) = []"
    by (simp add: buffered_def initial_session_def)
  show ?thesis
    using buf blob_type_policy [OF buf, of default_props]
    by (simp add: calls default_props_def)
qed

text \<open>
  C2 as stated fails for an audio-only recording with no \<^verbatim>\<open>blobPropertyBag\<close> whose
  first chunk reports \<^verbatim>\<open>audio/webm\<close>: the blob passed to \<^verbatim>\<open>onStop\<close> has the type
  \<^verbatim>\<open>audio/wav\<close>.
\<close>

theorem chunk_type_overridden_counterexample:
  "blobPropertyBag default_props = None \<and> video default_props = Flag False \<and>
   audio default_props = Flag True \<and> chunk_type chunk_a = ''audio/webm'' \<and>
   onStopCalls (session_of (onRecordingStop default_props (buffered [chunk_a]))) =
     [(BlobUrl 0, \<lparr>blobParts = [chunk_a], blob_type = ''audio/wav'', blob_endings = None\<rparr>)]"
  by (simp add: buffered_def hook_defs)

subsection \<open>C3: which chunks the finalize handler reads\<close>

text \<open>
  C3, amended. For every call of \<^verbatim>\<open>stopRecording\<close> on an active recorder, whatever
  the buffer holds at the call, the call empties the buffer, and the finalize handler
  reads the buffer as it is when the \<^verbatim>\<open>stop\<close> event fires: when at least one chunk
  is delivered after the call, the handler's access to the first chunk does not fault
  and the blob passed to \<^verbatim>\<open>onStop\<close> is assembled from exactly the chunks delivered
  after the call, in their order, so it is non-empty and holds none of the chunks
  emitted before the call.
\<close>

theorem finalize_reads_live_buffer:
  assumes "recorder_active s" and "list_all in_cycle late" and "delivered late \<noteq> []"
  shows "mediaChunks (stopRecording props s) = [] \<and>
         (\<exists>u blob.
            returns (onRecordingStop props (run props (stopRecording props s) late)) \<and>
            onStopCalls (session_of (onRecordingStop props (run props (stopRecording props s) late))) =
              onStopCalls s @ [(u, blob)] \<and>
            blobParts blob = delivered late)"
  using assms by (rule live_buffer_finalize)

theorem finalize_reads_live_buffer_witness:
  "recorder_active recording_session \<and>
   list_all in_cycle [DataAvailable chunk_b] \<and>
   delivered [DataAvailable chunk_b] = [chunk_b] \<and>
   mediaChunks recording_session = [chunk_a] \<and>
   mediaChunks (stopRecording default_props recording_session) = [] \<and>
   (\<exists>u blob.
      returns (onRecordingStop default_props
                 (run default_props (stopRecording default_props recording_session)
                    [DataAvailable chunk_b])) \<and>
      onStopCalls (session_of (onRecordingStop default_props
                 (run default_props (stopRecording default_props recording_session)
                    [DataAvailable chunk_b]))) =
        [(u, blob)] \<and>
      blobParts blob = [chunk_b])"
proof -
  have r: "recorder_active recording_session"
    by (simp add: recording_session_eq recorder_active_def)
  have l: "list_all in_cycle [DataAvailable chunk_b]"
    by simp
  have d: "delivered [DataAvailable chunk_b] = [chunk_b]"
    by (simp add: delivered_def)
  then have p: "delivered [DataAvailable chunk_b] \<noteq> []"
    by simp
  have calls: "onStopCalls recording_session = []" "mediaChunks recording_session = [chunk_a]"
    by (simp_all add: recording_session_eq)
  show ?thesis
    using r l calls finalize_reads_live_buffer [OF r l p, of default_props]
    by (simp add: d)
qed

text \<open>
  C3 as stated fails on a recording cycle that emitted \<open>chunk_a\<close> before
  \<^verbatim>\<open>stopRecording\<close>: if the \<^verbatim>\<open>stop\<close> event follows at once, the handler throws on
  its access to the first chunk and there is no blob; if \<open>chunk_b\<close> arrives in between,
  the blob is assembled from \<open>chunk_b\<close> alone.
\<close>

theorem stop_time_chunks_counterexample:
  "mediaChunks recording_session = [chunk_a] \<and>
   map_option state (mediaRecorder recording_session) = Some Recording \<and>
   onRecordingStop default_props (stopRecording default_props recording_session) =
     Throws TypeError (stopRecording default_props recording_session) \<and>
   onStopCalls (run default_props recording_session
       [StopRecording, DataAvailable chunk_b, RecorderStop]) =
     [(BlobUrl 0, \<lparr>blobParts = [chunk_b], blob_type = ''audio/wav'', blob_endings = None\<rparr>)]"
  by (simp add: recording_session_eq hook_defs)

subsection \<open>C4: when \<^verbatim>\<open>startRecording\<close> re-acquires\<close>

lemma getMediaStream_requests:
  "customMediaStream props = None \<Longrightarrow>
   requested (getMediaStream props pf s) \<noteq> requested s"
  by (simp add: getMediaStream_def Let_def catch_acquisition_def setMediaStream_acquired_def
      split: sum.splits)

text \<open>
  C4, amended. For every call to \<^verbatim>\<open>startRecording\<close> with an existing stream (in the
  hook that keeps the stream in React state, with no stream supplied by the caller),
  the controller asks the acquisition capability again before it creates the recorder
  if and only if at least one of the stream's tracks is in the ended state; if no
  track has ended, nothing is acquired, the session keeps the existing stream, and
  the recorder is created on it.
\<close>

theorem startRecording_reacquires:
  assumes "mediaStream s = Some h" and "customMediaStream props = None"
  shows "(requested (session_of (startRecording props pf s)) \<noteq> requested s) =
           (\<exists>t \<in> set (streams s h). readyState t = Ended) \<and>
         (\<not> (\<exists>t \<in> set (streams s h). readyState t = Ended) \<longrightarrow>
            mediaStream (session_of (startRecording props pf s)) = Some h \<and>
            streams (session_of (startRecording props pf s)) = streams s \<and>
            map_option stream (mediaRecorder (session_of (startRecording props pf s))) = Some h)"
proof (cases "isStreamEnded (streams s h)")
  case True
  then have "requested (session_of (startRecording props pf s)) =
             requested (getMediaStream props pf (s\<lparr>error := ''NONE''\<rparr>))"
    using assms(1) by (simp add: startRecording_def Let_def split: sum.splits)
  then show ?thesis
    using True getMediaStream_requests [OF assms(2), of pf "s\<lparr>error := ''NONE''\<rparr>"]
    by (simp add: isStreamEnded_def list_ex_iff)
next
  case False
  then show ?thesis
    using assms(1)
    by (simp add: startRecording_def Let_def isStreamEnded_def list_ex_iff MediaRecorder_new_def
        MediaRecorder_start_def split: option.splits)
qed

text \<open>
  The theorem on a stream with an ended track (a request is made) and on a stream
  whose only track is live (none is made, the stream is kept).
\<close>

theorem startRecording_reacquires_witness:
  "mediaStream half_ended_session = Some 0 \<and> customMediaStream default_props = None \<and>
   requested (session_of (startRecording default_props microphone half_ended_session)) \<noteq>
     requested half_ended_session \<and>
   mediaStream recording_session = Some 0 \<and>
   map readyState (streams recording_session 0) = [Live] \<and>
   requested (session_of (startRecording default_props microphone recording_session)) =
     requested recording_session \<and>
   mediaStream (session_of (startRecording default_props microphone recording_session)) = Some 0"
proof -
  have h: "mediaStream half_ended_session = Some 0"
    by (simp add: half_ended_session_def)
  have c: "customMediaStream default_props = None"
    by (simp add: default_props_def)
  have e: "\<exists>t \<in> set (streams half_ended_session 0). readyState t = Ended"
    by (simp add: half_ended_session_def initial_session_def live_video_def)
  have h': "mediaStream recording_session = Some 0"
    by (simp add: recording_session_eq)
  have l: "map readyState (streams recording_session 0) = [Live]"
    by (simp add: recording_session_eq live_audio_def)
  then have n: "\<not> (\<exists>t \<in> set (streams recording_session 0). readyState t = Ended)"
    by (simp add: recording_session_eq)
  show ?thesis
    using h c e h' l n startRecording_reacquires [OF h c, of microphone]
      startRecording_reacquires [OF h' c, of microphone]
    by simp
qed

text \<open>
  C4 as stated fails on a stream with a live audio track and an ended video track:
  not all tracks have ended, and \<^verbatim>\<open>startRecording\<close> asks \<^verbatim>\<open>getUserMedia\<close> for a
  new stream and stores it.
\<close>

theorem some_track_live_counterexample:
  "mediaStream half_ended_session = Some 0 \<and>
   map readyState (streams half_ended_session 0) = [Live, Ended] \<and>
   requested half_ended_session = [] \<and>
   requested (session_of (startRecording default_props microphone half_ended_session)) =
     [UserMedia \<lparr>audio_constraint = Some (Flag True), video_constraint = Some (Flag False)\<rparr>] \<and>
   mediaStream (session_of (startRecording default_props microphone half_ended_session)) = Some 1"
  by (simp add: half_ended_session_def hook_defs)

text \<open>
  The hook that keeps the stream in a ref computes \<^verbatim>\<open>isStreamEnded\<close> and never
  acquires in \<^verbatim>\<open>startRecording\<close>.
\<close>

lemma startRecording_ref_never_acquires:
  "requested (session_of (startRecording_ref pf s)) = requested s \<and>
   mediaStream (session_of (startRecording_ref pf s)) = mediaStream s \<and>
   streams (session_of (startRecording_ref pf s)) = streams s"
  by (simp add: startRecording_ref_def Let_def split: option.splits sum.splits)

subsection \<open>C5: two starts with no stop in between\<close>

text \<open>
  C5, amended. For every pair of \<^verbatim>\<open>startRecording\<close> calls with no intervening
  \<^verbatim>\<open>stopRecording\<close>, the second call, when it succeeds, replaces the recorder
  reference by a fresh recording recorder and leaves the chunk buffer as it is, the
  first cycle's chunks included; when the second cycle is then ended by
  \<^verbatim>\<open>stopRecording\<close> and at least one chunk is delivered after that call, the blob of
  the second cycle's finalize is assembled from exactly the chunks delivered after
  that call, so no chunk emitted before it appears in the output.
\<close>

theorem second_start_keeps_buffer:
  assumes first: "s1 = run props (session_of (startRecording props pf s0)) between"
    and between: "list_all in_cycle between"
    and stream: "mediaStream s1 = Some h"
    and second: "startRecording props pf' s1 = Returns s2"
    and mid: "list_all in_cycle mid"
    and late: "list_all in_cycle late"
    and chunk: "delivered late \<noteq> []"
  shows "mediaRecorder s2 = Some \<lparr>stream = h, state = Recording\<rparr> \<and>
         mediaChunks s2 = mediaChunks s0 @ delivered between \<and>
         (\<exists>u blob.
            returns (onRecordingStop props (run props s2 (mid @ [StopRecording] @ late))) \<and>
            onStopCalls (session_of
              (onRecordingStop props (run props s2 (mid @ [StopRecording] @ late)))) =
              onStopCalls s2 @ [(u, blob)] \<and>
            blobParts blob = delivered late)"
proof -
  have rec: "mediaRecorder s2 = Some \<lparr>stream = h, state = Recording\<rparr>"
    and "mediaChunks s2 = mediaChunks s1"
    using startRecording_returns [OF stream second] by simp_all
  then have buf: "mediaChunks s2 = mediaChunks s0 @ delivered between"
    using in_cycle_run [OF between, of props "session_of (startRecording props pf s0)"]
    by (simp add: first startRecording_chunks)
  have "recorder_active s2"
    using stream second by (rule startRecording_active)
  then have active: "recorder_active (run props s2 mid)"
    and calls: "onStopCalls (run props s2 mid) = onStopCalls s2"
    using in_cycle_run [OF mid, of props s2] by simp_all
  have "run props s2 (mid @ [StopRecording] @ late) =
        run props (stopRecording props (run props s2 mid)) late"
    by (simp add: run_append run_Cons)
  then show ?thesis
    using rec buf calls live_buffer_finalize [OF active late chunk, of props]
    by simp
qed

theorem second_start_keeps_buffer_witness:
  "list_all in_cycle [RecorderStart, DataAvailable chunk_a] \<and>
   mediaStream (run default_props
      (session_of (startRecording default_props microphone
         (run default_props (initial_session no_streams) [Mount microphone])))
      [RecorderStart, DataAvailable chunk_a]) = Some 0 \<and>
   returns (startRecording default_props microphone
      (run default_props
         (session_of (startRecording default_props microphone
            (run default_props (initial_session no_streams) [Mount microphone])))
         [RecorderStart, DataAvailable chunk_a])) \<and>
   delivered [DataAvailable chunk_b] = [chunk_b] \<and>
   mediaChunks (session_of (startRecording default_props microphone
      (run default_props
         (session_of (startRecording default_props microphone
            (run default_props (initial_session no_streams) [Mount microphone])))
         [RecorderStart, DataAvailable chunk_a]))) = [chunk_a] \<and>
   (\<exists>u blob.
      onStopCalls (session_of (onRecordingStop default_props
        (run default_props
           (session_of (startRecording default_props microphone
              (run default_props
                 (session_of (startRecording default_props microphone
                    (run default_props (initial_session no_streams) [Mount microphone])))
                 [RecorderStart, DataAvailable chunk_a])))
           ([RecorderStart] @ [StopRecording] @ [DataAvailable chunk_b])))) =
        [(u, blob)] \<and>
      blobParts blob = [chunk_b])"
proof -
  let ?s0 = "run default_props (initial_session no_streams) [Mount microphone]"
  let ?between = "[RecorderStart, DataAvailable chunk_a]"
  let ?s1 = "run default_props (session_of (startRecording default_props microphone ?s0)) ?between"
  let ?s2 = "session_of (startRecording default_props microphone ?s1)"
  have between: "list_all in_cycle ?between" and mid: "list_all in_cycle [RecorderStart]"
    and late: "list_all in_cycle [DataAvailable chunk_b]"
    by simp_all
  have stream: "mediaStream ?s1 = Some 0"
    by (simp add: hook_defs)
  have ret: "returns (startRecording default_props microphone ?s1)"
    by (simp add: hook_defs)
  then have second: "startRecording default_props microphone ?s1 = Returns ?s2"
    by (rule returns_session_of)
  have d: "delivered [DataAvailable chunk_b] = [chunk_b]" "delivered ?between = [chunk_a]"
    by (simp_all add: delivered_def)
  then have chunk: "delivered [DataAvailable chunk_b] \<noteq> []"
    by simp
  have s0: "mediaChunks ?s0 = []"
    by (simp add: hook_defs)
  have calls: "onStopCalls ?s2 = []"
    by (simp add: hook_defs)
  show ?thesis
    using between stream ret
      second_start_keeps_buffer [OF refl between stream second mid late chunk]
    by (simp only: d s0 calls append_Nil) blast
qed

text \<open>
  C5 as stated fails on the history mount, start, \<open>chunk_a\<close>, start: the buffer still
  holds \<open>chunk_a\<close> after the second start. When the consumer then stops the stream
  and the recorder stops of itself, delivering \<open>chunk_b\<close>, the blob passed to
  \<^verbatim>\<open>onStop\<close> is assembled from \<open>chunk_a\<close> and \<open>chunk_b\<close>.
\<close>

theorem first_cycle_chunk_leaks_counterexample:
  "mediaChunks (run default_props (initial_session no_streams)
      [Mount microphone, StartRecording microphone, DataAvailable chunk_a,
       StartRecording microphone]) = [chunk_a] \<and>
   onStopCalls (run default_props (initial_session no_streams)
      [Mount microphone, StartRecording microphone, DataAvailable chunk_a,
       StartRecording microphone, StopMediaStream, DataAvailable chunk_b, RecorderStop]) =
     [(BlobUrl 0,
       \<lparr>blobParts = [chunk_a, chunk_b], blob_type = ''audio/wav'', blob_endings = None\<rparr>)]"
  by (simp add: hook_defs)

subsection \<open>C6: a rejected acquisition\<close>

lemma getMediaStream_rejected:
  assumes "rejects_with props pf name"
  shows "getMediaStream props pf s =
           s\<lparr>status := idle, error := name,
             requested := requested (getMediaStream props pf s)\<rparr>"
proof -
  have custom: "customMediaStream props = None"
    using assms by (simp add: rejects_with_def)
  show ?thesis
  proof (cases "screen props")
    case False
    then obtain "getUserMedia pf (requiredMedia props) = Inl name"
      using assms by (simp add: rejects_with_def split: sum.splits)
    then show ?thesis
      using custom False by (simp add: getMediaStream_def catch_acquisition_def Let_def)
  next
    case True
    show ?thesis
    proof (cases "getDisplayMedia pf (displayMedia_request props)")
      case (Inl n)
      then have "n = name"
        using assms True by (simp add: rejects_with_def)
      then show ?thesis
        using custom True Inl by (simp add: getMediaStream_def catch_acquisition_def Let_def)
    next
      case (Inr ts)
      then have "truthy (audio props)" "getUserMedia pf (audioOnly_request props) = Inl name"
        using assms True by (simp_all add: rejects_with_def split: sum.splits)
      then show ?thesis
        using custom True Inr by (simp add: getMediaStream_def catch_acquisition_def Let_def)
    qed
  qed
qed

text \<open>
  C6. For every acquisition attempt in which the stream-acquisition capability fails
  with a named error, \<^verbatim>\<open>getMediaStream\<close> stores the name, the error the hook returns
  is the entry of \<^verbatim>\<open>RecorderErrors\<close> under that name (\<^verbatim>\<open>AbortError\<close> maps to
  \<^verbatim>\<open>media_aborted\<close>, \<^verbatim>\<open>NotAllowedError\<close> to \<^verbatim>\<open>permission_denied\<close>,
  \<^verbatim>\<open>NotFoundError\<close> to \<^verbatim>\<open>no_specified_media_found\<close>, \<^verbatim>\<open>NotReadableError\<close> to
  \<^verbatim>\<open>media_in_use\<close>, \<^verbatim>\<open>OverconstrainedError\<close> to \<^verbatim>\<open>invalid_media_constraints\<close>,
  \<^verbatim>\<open>TypeError\<close> to \<^verbatim>\<open>no_constraints\<close>), status resolves to \<^verbatim>\<open>idle\<close>, and no
  stream is stored: apart from status, error and the log of requests the session is as
  before the attempt.
\<close>

theorem acquisition_failure:
  assumes "rejects_with props pf name"
  shows "error (getMediaStream props pf s) = name \<and>
         error_field (getMediaStream props pf s) = RecorderErrors name \<and>
         error_field (getMediaStream props pf s) =
           (if name = ''AbortError'' then Some ''media_aborted''
            else if name = ''NotAllowedError'' then Some ''permission_denied''
            else if name = ''NotFoundError'' then Some ''no_specified_media_found''
            else if name = ''NotReadableError'' then Some ''media_in_use''
            else if name = ''OverconstrainedError'' then Some ''invalid_media_constraints''
            else if name = ''TypeError'' then Some ''no_constraints''
            else RecorderErrors name) \<and>
         status (getMediaStream props pf s) = idle \<and>
         mediaStream (getMediaStream props pf s) = mediaStream s \<and>
         streams (getMediaStream props pf s) = streams s \<and>
         getMediaStream props pf s =
           s\<lparr>status := idle, error := name,
             requested := requested (getMediaStream props pf s)\<rparr> \<and>
         RecorderErrors ''AbortError'' = Some ''media_aborted'' \<and>
         RecorderErrors ''NotAllowedError'' = Some ''permission_denied'' \<and>
         RecorderErrors ''NotFoundError'' = Some ''no_specified_media_found'' \<and>
         RecorderErrors ''NotReadableError'' = Some ''media_in_use'' \<and>
         RecorderErrors ''OverconstrainedError'' = Some ''invalid_media_constraints'' \<and>
         RecorderErrors ''TypeError'' = Some ''no_constraints''"
proof -
  have table:
    "RecorderErrors ''AbortError'' = Some ''media_aborted''"
    "RecorderErrors ''NotAllowedError'' = Some ''permission_denied''"
    "RecorderErrors ''NotFoundError'' = Some ''no_specified_media_found''"
    "RecorderErrors ''NotReadableError'' = Some ''media_in_use''"
    "RecorderErrors ''OverconstrainedError'' = Some ''invalid_media_constraints''"
    "RecorderErrors ''TypeError'' = Some ''no_constraints''"
    by (simp_all add: RecorderErrors_def)
  have whole: "getMediaStream props pf s =
      s\<lparr>status := idle, error := name, requested := requested (getMediaStream props pf s)\<rparr>"
    by (rule getMediaStream_rejected [OF assms])
  have fields: "error (getMediaStream props pf s) = name"
    "status (getMediaStream props pf s) = idle"
    "mediaStream (getMediaStream props pf s) = mediaStream s"
    "streams (getMediaStream props pf s) = streams s"
    by (subst whole, simp)+
  have field: "error_field (getMediaStream props pf s) = RecorderErrors name"
    using fields(1) by (simp add: error_field_def)
  have named: "RecorderErrors name =
      (if name = ''AbortError'' then Some ''media_aborted''
       else if name = ''NotAllowedError'' then Some ''permission_denied''
       else if name = ''NotFoundError'' then Some ''no_specified_media_found''
       else if name = ''NotReadableError'' then Some ''media_in_use''
       else if name = ''OverconstrainedError'' then Some ''invalid_media_constraints''
       else if name = ''TypeError'' then Some ''no_constraints''
       else RecorderErrors name)"
    using table by simp
  have field': "error_field (getMediaStream props pf s) =
      (if name = ''AbortError'' then Some ''media_aborted''
       else if name = ''NotAllowedError'' then Some ''permission_denied''
       else if name = ''NotFoundError'' then Some ''no_specified_media_found''
       else if name = ''NotReadableError'' then Some ''media_in_use''
       else if name = ''OverconstrainedError'' then Some ''invalid_media_constraints''
       else if name = ''TypeError'' then Some ''no_constraints''
       else RecorderErrors name)"
    using field named by simp
  from fields field field' whole table show ?thesis
    by (intro conjI)
qed

text \<open>
  The theorem on the default props, with a browser whose user denies the request and
  with one that finds no device.
\<close>

theorem acquisition_failure_witness:
  "rejects_with default_props refusing ''NotAllowedError'' \<and>
   error_field (getMediaStream default_props refusing (initial_session no_streams)) =
     Some ''permission_denied'' \<and>
   status (getMediaStream default_props refusing (initial_session no_streams)) = idle \<and>
   mediaStream (getMediaStream default_props refusing (initial_session no_streams)) = None \<and>
   rejects_with default_props no_device ''NotFoundError'' \<and>
   error_field (getMediaStream default_props no_device (initial_session no_streams)) =
     Some ''no_specified_media_found'' \<and>
   status (getMediaStream default_props no_device (initial_session no_streams)) = idle \<and>
   mediaStream (getMediaStream default_props no_device (initial_session no_streams)) = None"
proof -
  have r: "rejects_with default_props refusing ''NotAllowedError''"
    by (simp add: rejects_with_def default_props_def refusing_def requiredMedia_def)
  have n: "rejects_with default_props no_device ''NotFoundError''"
    by (simp add: rejects_with_def default_props_def no_device_def requiredMedia_def)
  have i: "mediaStream (initial_session no_streams) = None"
    by (simp add: initial_session_def)
  have a: "error_field (getMediaStream default_props refusing (initial_session no_streams)) =
        Some ''permission_denied'' \<and>
      status (getMediaStream default_props refusing (initial_session no_streams)) = idle \<and>
      mediaStream (getMediaStream default_props refusing (initial_session no_streams)) = None"
    using acquisition_failure [OF r, of "initial_session no_streams"] by (simp add: i)
  have b: "error_field (getMediaStream default_props no_device (initial_session no_streams)) =
        Some ''no_specified_media_found'' \<and>
      status (getMediaStream default_props no_device (initial_session no_streams)) = idle \<and>
      mediaStream (getMediaStream default_props no_device (initial_session no_streams)) = None"
    using acquisition_failure [OF n, of "initial_session no_streams"] by (simp add: i)
  show ?thesis
    using r n a b by simp
qed

subsection \<open>C7: the recorder's error event\<close>

text \<open>
  C7, amended. For every recorder-level error event, the handler sets the error
  field to \<^verbatim>\<open>recorder_error\<close> and status to \<^verbatim>\<open>idle\<close> and does nothing else: the
  session after the event is the session before it with those two cells written. It
  calls no method of the recorder, and the recorder reference, the chunk buffer with
  the partial chunks, and the streams are as they were.
\<close>

theorem recorder_error_handler:
  "onRecordingError s = s\<lparr>error := ''NO_RECORDER'', status := idle\<rparr> \<and>
   error (onRecordingError s) = ''NO_RECORDER'' \<and>
   error_field (onRecordingError s) = Some ''recorder_error'' \<and>
   status (onRecordingError s) = idle \<and>
   mediaRecorder (onRecordingError s) = mediaRecorder s \<and>
   mediaChunks (onRecordingError s) = mediaChunks s \<and>
   streams (onRecordingError s) = streams s"
  by (simp add: onRecordingError_def error_field_def RecorderErrors_def)

text \<open>
  C7 as stated fails on a recording session that holds \<open>chunk_a\<close>: after the error
  event the buffer still holds \<open>chunk_a\<close>, and a \<^verbatim>\<open>stop\<close> event that follows hands
  a blob assembled from it to \<^verbatim>\<open>onStop\<close>.
\<close>

theorem recorder_error_keeps_chunks_counterexample:
  "map_option state (mediaRecorder recording_session) = Some Recording \<and>
   mediaChunks recording_session = [chunk_a] \<and>
   mediaChunks (step default_props recording_session RecorderError) = [chunk_a] \<and>
   onStopCalls (run default_props recording_session [RecorderError, RecorderStop]) =
     [(BlobUrl 0, \<lparr>blobParts = [chunk_a], blob_type = ''audio/wav'', blob_endings = None\<rparr>)]"
  by (simp add: recording_session_eq hook_defs)

subsection \<open>C8: pause and resume\<close>

text \<open>On a recording recorder \<^verbatim>\<open>pauseRecording\<close> pauses it, and on a paused one
  \<^verbatim>\<open>resumeRecording\<close> resumes it; the guards keep the methods from throwing.\<close>

lemma pauseRecording_recording:
  "mediaRecorder s = Some r \<Longrightarrow> state r = Recording \<Longrightarrow>
   pauseRecording s = Returns (s\<lparr>mediaRecorder := Some (r\<lparr>state := Paused\<rparr>)\<rparr>)"
  by (simp add: pauseRecording_def MediaRecorder_pause_def)

lemma resumeRecording_paused:
  "mediaRecorder s = Some r \<Longrightarrow> state r = Paused \<Longrightarrow>
   resumeRecording s = Returns (s\<lparr>mediaRecorder := Some (r\<lparr>state := Recording\<rparr>)\<rparr>)"
  by (simp add: resumeRecording_def MediaRecorder_resume_def)

text \<open>
  C8. For every session state, \<^verbatim>\<open>pauseRecording\<close> returns the session unchanged
  unless a recorder exists and its state is \<^verbatim>\<open>recording\<close>, \<^verbatim>\<open>resumeRecording\<close>
  returns it unchanged unless a recorder exists and its state is \<^verbatim>\<open>paused\<close>; neither
  call throws, and neither changes status or error.
\<close>

theorem pause_resume_frame:
  "(\<not> (\<exists>r. mediaRecorder s = Some r \<and> state r = Recording) \<longrightarrow> pauseRecording s = Returns s) \<and>
   (\<not> (\<exists>r. mediaRecorder s = Some r \<and> state r = Paused) \<longrightarrow> resumeRecording s = Returns s) \<and>
   returns (pauseRecording s) \<and> returns (resumeRecording s) \<and>
   status (session_of (pauseRecording s)) = status s \<and>
   error (session_of (pauseRecording s)) = error s \<and>
   error_field (session_of (pauseRecording s)) = error_field s \<and>
   status (session_of (resumeRecording s)) = status s \<and>
   error (session_of (resumeRecording s)) = error s \<and>
   error_field (session_of (resumeRecording s)) = error_field s"
  by (auto simp: pauseRecording_def resumeRecording_def MediaRecorder_pause_def
        MediaRecorder_resume_def error_field_def split: option.splits)

theorem pause_resume_frame_witness:
  "pauseRecording (initial_session no_streams) = Returns (initial_session no_streams) \<and>
   resumeRecording (initial_session no_streams) = Returns (initial_session no_streams) \<and>
   resumeRecording recording_session = Returns recording_session \<and>
   status (session_of (pauseRecording recording_session)) = recording"
proof -
  have a: "\<not> (\<exists>r. mediaRecorder (initial_session no_streams) = Some r \<and> state r = Recording)"
    "\<not> (\<exists>r. mediaRecorder (initial_session no_streams) = Some r \<and> state r = Paused)"
    by (simp_all add: initial_session_def)
  have b: "\<not> (\<exists>r. mediaRecorder recording_session = Some r \<and> state r = Paused)"
    "status recording_session = recording"
    by (auto simp: recording_session_eq)
  show ?thesis
    using a b pause_resume_frame [of "initial_session no_streams"]
      pause_resume_frame [of recording_session]
    by simp
qed

subsection \<open>C9: stop with no active recorder\<close>

text \<open>
  C9. For every session state in which no recorder exists or the recorder's state is
  \<^verbatim>\<open>inactive\<close>, \<^verbatim>\<open>stopRecording\<close> is a no-op: the session is returned as it is, so
  status, error, the chunk buffer and the stream's tracks are unchanged.
\<close>

theorem stopRecording_noop:
  assumes "mediaRecorder s = None \<or> (\<exists>r. mediaRecorder s = Some r \<and> state r = Inactive)"
  shows "stopRecording props s = s \<and>
         status (stopRecording props s) = status s \<and>
         error (stopRecording props s) = error s \<and>
         mediaChunks (stopRecording props s) = mediaChunks s \<and>
         streams (stopRecording props s) = streams s"
  using assms by (auto simp: stopRecording_def)

theorem stopRecording_noop_witness:
  "map_option state (mediaRecorder stopped_once) = Some Inactive \<and>
   stopRecording default_props stopped_once = stopped_once \<and>
   stopRecording default_props (initial_session no_streams) = initial_session no_streams"
proof -
  have r: "mediaRecorder stopped_once = Some \<lparr>stream = 0, state = Inactive\<rparr>"
    by (simp add: stopped_once_def recording_session_eq stopRecording_def MediaRecorder_stop_def
        default_props_def Let_def)
  then have a: "mediaRecorder stopped_once = None \<or>
      (\<exists>r. mediaRecorder stopped_once = Some r \<and> state r = Inactive)"
    by simp
  have b: "mediaRecorder (initial_session no_streams) = None \<or>
      (\<exists>r. mediaRecorder (initial_session no_streams) = Some r \<and> state r = Inactive)"
    by (simp add: initial_session_def)
  show ?thesis
    using r stopRecording_noop [OF a, of default_props] stopRecording_noop [OF b, of default_props]
    by simp
qed

subsection \<open>C10: mute and unmute\<close>

lemma muteAudio_frame:
  "isAudioMuted (muteAudio mute s) = mute \<and>
   mediaStream (muteAudio mute s) = mediaStream s \<and>
   mediaRecorder (muteAudio mute s) = mediaRecorder s \<and>
   status (muteAudio mute s) = status s"
  by (simp add: muteAudio_def Let_def split: option.splits)

lemma muteAudio_ref_eq: "muteAudio_ref mute s = muteAudio mute s"
  by (simp add: muteAudio_ref_def muteAudio_def Let_def split: option.splits)

lemma mute_tracks:
  "mediaStream s = Some h \<Longrightarrow>
   streams (muteAudio True s) h =
     map (\<lambda>t. if kind t = AudioKind then t\<lparr>enabled := False\<rparr> else t) (streams s h)"
  by (simp add: muteAudio_def Let_def cong: if_cong)

lemma unmute_tracks:
  "mediaStream s = Some h \<Longrightarrow>
   streams (muteAudio False s) h =
     map (\<lambda>t. if kind t = AudioKind then t\<lparr>enabled := True\<rparr> else t) (streams s h)"
  by (simp add: muteAudio_def Let_def cong: if_cong)

lemma muteAudio_tracks:
  "mediaStream s = Some h \<Longrightarrow>
   streams (muteAudio mute s) h =
     map (\<lambda>t. if kind t = AudioKind then t\<lparr>enabled := \<not> mute\<rparr> else t) (streams s h)"
  by (simp add: muteAudio_def Let_def)

lemma toggled_audio:
  "list_all (\<lambda>t. enabled t = b)
     (getAudioTracks (map (\<lambda>t. if kind t = AudioKind then t\<lparr>enabled := b\<rparr> else t) ts))"
  by (induction ts) (simp_all add: getAudioTracks_def)

lemma toggled_twice:
  "map (\<lambda>t. if kind t = AudioKind then t\<lparr>enabled := b\<rparr> else t)
     (map (\<lambda>t. if kind t = AudioKind then t\<lparr>enabled := a\<rparr> else t) ts) =
   map (\<lambda>t. if kind t = AudioKind then t\<lparr>enabled := b\<rparr> else t) ts"
  by (induction ts) simp_all

lemma toggled_same:
  "list_all (\<lambda>t. enabled t = b) (getAudioTracks ts) \<Longrightarrow>
   map (\<lambda>t. if kind t = AudioKind then t\<lparr>enabled := b\<rparr> else t) ts = ts"
  by (induction ts) (auto simp: getAudioTracks_def)

lemma toggled_rest:
  "map (\<lambda>t. (kind t, readyState t))
     (map (\<lambda>t. if kind t = AudioKind then t\<lparr>enabled := b\<rparr> else t) ts) =
   map (\<lambda>t. (kind t, readyState t)) ts"
  by (induction ts) simp_all

text \<open>
  C10, amended. For every stream and every starting per-track enabled configuration,
  \<^verbatim>\<open>muteAudio\<close> sets \<^verbatim>\<open>isAudioMuted\<close> to true and disables every audio track,
  \<^verbatim>\<open>unMuteAudio\<close> sets \<^verbatim>\<open>isAudioMuted\<close> to false and enables every audio track, and
  mute followed by unmute leaves every audio track enabled, which is the stream's
  original state when every audio track was enabled to begin with; neither call
  changes the kind or the ready state of a track, the recorder or the status, in
  either version of the hook.
\<close>

theorem mute_unmute:
  assumes "mediaStream s = Some h"
  shows "isAudioMuted (muteAudio True s) \<and>
         list_all (\<lambda>t. enabled t = False) (getAudioTracks (streams (muteAudio True s) h)) \<and>
         \<not> isAudioMuted (muteAudio False s) \<and>
         list_all (\<lambda>t. enabled t = True) (getAudioTracks (streams (muteAudio False s) h)) \<and>
         list_all (\<lambda>t. enabled t = True)
           (getAudioTracks (streams (muteAudio False (muteAudio True s)) h)) \<and>
         (list_all (\<lambda>t. enabled t = True) (getAudioTracks (streams s h)) \<longrightarrow>
            streams (muteAudio False (muteAudio True s)) h = streams s h) \<and>
         map (\<lambda>t. (kind t, readyState t)) (streams (muteAudio mute s) h) =
           map (\<lambda>t. (kind t, readyState t)) (streams s h) \<and>
         mediaRecorder (muteAudio mute s) = mediaRecorder s \<and>
         status (muteAudio mute s) = status s \<and>
         muteAudio_ref mute s = muteAudio mute s"
proof -
  have m: "mediaStream (muteAudio True s) = Some h"
    using assms by (simp add: muteAudio_frame)
  have twice: "streams (muteAudio False (muteAudio True s)) h =
      map (\<lambda>t. if kind t = AudioKind then t\<lparr>enabled := True\<rparr> else t) (streams s h)"
    by (simp add: unmute_tracks [OF m] mute_tracks [OF assms] toggled_twice)
  have "list_all (\<lambda>t. enabled t = False) (getAudioTracks (streams (muteAudio True s) h))"
    using toggled_audio [of False "streams s h"] by (simp add: mute_tracks [OF assms])
  moreover have "list_all (\<lambda>t. enabled t = True) (getAudioTracks (streams (muteAudio False s) h))"
    using toggled_audio [of True "streams s h"] by (simp add: unmute_tracks [OF assms])
  moreover have "list_all (\<lambda>t. enabled t = True)
      (getAudioTracks (streams (muteAudio False (muteAudio True s)) h))"
    using toggled_audio [of True "streams s h"] by (simp add: twice)
  moreover have "list_all (\<lambda>t. enabled t = True) (getAudioTracks (streams s h)) \<longrightarrow>
      streams (muteAudio False (muteAudio True s)) h = streams s h"
    using toggled_same [of True "streams s h"] by (simp add: twice)
  moreover have "map (\<lambda>t. (kind t, readyState t)) (streams (muteAudio mute s) h) =
      map (\<lambda>t. (kind t, readyState t)) (streams s h)"
    using toggled_rest [of "\<not> mute" "streams s h"] by (simp add: muteAudio_tracks [OF assms])
  ultimately show ?thesis
    by (simp add: muteAudio_frame muteAudio_ref_eq)
qed

theorem mute_unmute_witness:
  "mediaStream recording_session = Some 0 \<and>
   list_all (\<lambda>t. enabled t = True) (getAudioTracks (streams recording_session 0)) \<and>
   isAudioMuted (muteAudio True recording_session) \<and>
   streams (muteAudio False (muteAudio True recording_session)) 0 = streams recording_session 0 \<and>
   mediaRecorder (muteAudio True recording_session) = mediaRecorder recording_session"
proof -
  have h: "mediaStream recording_session = Some 0"
    by (simp add: recording_session_eq)
  have e: "list_all (\<lambda>t. enabled t = True) (getAudioTracks (streams recording_session 0))"
    by (simp add: recording_session_eq getAudioTracks_def live_audio_def)
  show ?thesis
    using h e mute_unmute [OF h, of True] by simp
qed

text \<open>
  C10 as stated fails on a stream whose audio track is disabled to begin with: after
  mute and unmute the track is enabled.
\<close>

theorem disabled_track_counterexample:
  "mediaStream muted_microphone = Some 0 \<and>
   map kind (streams muted_microphone 0) = [AudioKind, VideoKind] \<and>
   map enabled (streams muted_microphone 0) = [False, True] \<and>
   map enabled (streams (muteAudio False (muteAudio True muted_microphone)) 0) = [True, True]"
  by (simp add: muted_microphone_def initial_session_def muteAudio_def live_audio_def
      live_video_def no_streams_def Let_def cong: if_cong)

end
